theory Spec2Isabelle
  imports Main "HOL-Library.Sublist"
begin

section \<open>Python values used by app.py\<close>

text \<open>
  Strings are byte strings: a \<^typ>\<open>string\<close> is the UTF-8 encoding of the Python
  \<open>str\<close>, which is also what the HTTP response carries. Exceptions are values of
  \<open>exn\<close>; a computation that may raise returns \<open>exn + 'a\<close> with \<open>Inl\<close> for the
  raised exception.
\<close>

datatype exn = OSError | ValueError | NotFound | MethodNotAllowed

datatype json = JString string | JNumber int | JObject "(string \<times> json) list"

text \<open>
  The body of a response: \<open>Json\<close> is what \<open>jsonify\<close> builds (content type
  application/json), \<open>Html\<close> is a string returned by a view (content type text/html),
  and \<open>Framework\<close> stands for a body that Flask or Werkzeug generate themselves (the
  automatic OPTIONS answer, the default 405 page, the debugger's traceback page); its
  text is not part of app.py and is not modelled.
\<close>

datatype content = Json json | Html string | Framework

record response =
  status_code :: nat
  body :: content

definition jsonify :: "(string \<times> json) list \<Rightarrow> content" where
  "jsonify d = Json (JObject d)"

subsection \<open>Decimal digits\<close>

definition digit_char :: "nat \<Rightarrow> char" where
  "digit_char d = char_of (48 + d)"

definition is_digit :: "char \<Rightarrow> bool" where
  "is_digit c = (48 \<le> (of_char c :: nat) \<and> (of_char c :: nat) \<le> 57)"

definition digit_val :: "char \<Rightarrow> nat" where
  "digit_val c = of_char c - 48"

text \<open>\<open>str(n)\<close> for a non-negative integer.\<close>

fun str_nat :: "nat \<Rightarrow> string" where
  "str_nat n = (if n < 10 then [digit_char n]
                else str_nat (n div 10) @ [digit_char (n mod 10)])"

declare str_nat.simps [simp del]

text \<open>The conversions \<open>%02d\<close>, \<open>%04d\<close> and \<open>%06d\<close>: zero padding up to a minimal width.\<close>

definition pad0 :: "nat \<Rightarrow> nat \<Rightarrow> string" where
  "pad0 w n = replicate (w - length (str_nat n)) (CHR ''0'') @ str_nat n"

definition decimal_value :: "string \<Rightarrow> nat" where
  "decimal_value s = foldl (\<lambda>a c. 10 * a + digit_val c) 0 s"

subsection \<open>datetime\<close>

record datetime =
  year :: nat
  month :: nat
  day :: nat
  hour :: nat
  minute :: nat
  second :: nat
  microsecond :: nat

definition is_leap :: "nat \<Rightarrow> bool" where
  "is_leap y = (y mod 4 = 0 \<and> (y mod 100 \<noteq> 0 \<or> y mod 400 = 0))"

definition days_in_month :: "nat \<Rightarrow> nat \<Rightarrow> nat" where
  "days_in_month y m =
     (if m = 2 then (if is_leap y then 29 else 28)
      else if m = 4 \<or> m = 6 \<or> m = 9 \<or> m = 11 then 30 else 31)"

text \<open>The invariant of Python's \<open>datetime\<close> objects (MINYEAR = 1, MAXYEAR = 9999).\<close>

definition valid_datetime :: "datetime \<Rightarrow> bool" where
  "valid_datetime dt =
     (1 \<le> year dt \<and> year dt \<le> 9999 \<and> 1 \<le> month dt \<and> month dt \<le> 12 \<and>
      1 \<le> day dt \<and> day dt \<le> days_in_month (year dt) (month dt) \<and>
      hour dt < 24 \<and> minute dt < 60 \<and> second dt < 60 \<and> microsecond dt < 1000000)"

text \<open>
  \<open>datetime.isoformat()\<close> of a naive datetime with the default separator and
  \<open>timespec='auto'\<close>: \<open>"%04d-%02d-%02dT%02d:%02d:%02d"\<close>, followed by \<open>".%06d"\<close> when
  the microsecond field is not zero.
\<close>

definition isoformat :: "datetime \<Rightarrow> string" where
  "isoformat dt =
     pad0 4 (year dt) @ ''-'' @ pad0 2 (month dt) @ ''-'' @ pad0 2 (day dt) @ ''T'' @
     pad0 2 (hour dt) @ '':'' @ pad0 2 (minute dt) @ '':'' @ pad0 2 (second dt) @
     (if microsecond dt = 0 then [] else ''.'' @ pad0 6 (microsecond dt))"

text \<open>
  \<open>strftime('%Y-%m-%d %H:%M:%S')\<close>. The fields \<open>%m %d %H %M %S\<close> are two digits, zero
  padded. \<open>%Y\<close> is handed to the C library, which on Linux prints the year without
  padding; from the year 1000 on this is four digits.
\<close>

definition strftime :: "datetime \<Rightarrow> string" where
  "strftime dt =
     str_nat (year dt) @ ''-'' @ pad0 2 (month dt) @ ''-'' @ pad0 2 (day dt) @ '' '' @
     pad0 2 (hour dt) @ '':'' @ pad0 2 (minute dt) @ '':'' @ pad0 2 (second dt)"

subsection \<open>A reader for ISO-8601 datetimes\<close>

text \<open>
  The extended format \<open>YYYY-MM-DDTHH:MM:SS\<close> with an optional fraction of exactly six
  digits, as \<open>datetime.fromisoformat\<close> reads it; the result must be a valid datetime.
\<close>

definition read_digits :: "nat \<Rightarrow> string \<Rightarrow> (nat \<times> string) option" where
  "read_digits w s =
     (if w \<le> length s \<and> list_all is_digit (take w s)
      then Some (decimal_value (take w s), drop w s) else None)"

definition expect :: "char \<Rightarrow> string \<Rightarrow> string option" where
  "expect c s = (case s of [] \<Rightarrow> None | x # xs \<Rightarrow> if x = c then Some xs else None)"

definition read_fraction :: "string \<Rightarrow> nat option" where
  "read_fraction s =
     (if s = [] then Some 0
      else Option.bind (expect (CHR ''.'') s) (\<lambda>s1.
           Option.bind (read_digits 6 s1) (\<lambda>(us, rest).
             if rest = [] then Some us else None)))"

definition fromisoformat :: "string \<Rightarrow> datetime option" where
  "fromisoformat s0 =
     Option.bind (read_digits 4 s0) (\<lambda>(y, s1).
     Option.bind (expect (CHR ''-'') s1) (\<lambda>s2.
     Option.bind (read_digits 2 s2) (\<lambda>(mo, s3).
     Option.bind (expect (CHR ''-'') s3) (\<lambda>s4.
     Option.bind (read_digits 2 s4) (\<lambda>(d, s5).
     Option.bind (expect (CHR ''T'') s5) (\<lambda>s6.
     Option.bind (read_digits 2 s6) (\<lambda>(h, s7).
     Option.bind (expect (CHR '':'') s7) (\<lambda>s8.
     Option.bind (read_digits 2 s8) (\<lambda>(mi, s9).
     Option.bind (expect (CHR '':'') s9) (\<lambda>s10.
     Option.bind (read_digits 2 s10) (\<lambda>(sec, s11).
     Option.bind (read_fraction s11) (\<lambda>us.
       (let dt = \<lparr>year = y, month = mo, day = d, hour = h, minute = mi,
                  second = sec, microsecond = us\<rparr>
        in if valid_datetime dt then Some dt else None)))))))))))))"

text \<open>
  The shape \<open>YYYY-MM-DD HH:MM:SS\<close>: nineteen characters, digits everywhere except for
  the two hyphens, the space and the two colons. The result is the six numbers read.
\<close>

definition reads_ymd_hms :: "string \<Rightarrow> (nat \<times> nat \<times> nat \<times> nat \<times> nat \<times> nat) option" where
  "reads_ymd_hms s0 =
     Option.bind (read_digits 4 s0) (\<lambda>(y, s1).
     Option.bind (expect (CHR ''-'') s1) (\<lambda>s2.
     Option.bind (read_digits 2 s2) (\<lambda>(mo, s3).
     Option.bind (expect (CHR ''-'') s3) (\<lambda>s4.
     Option.bind (read_digits 2 s4) (\<lambda>(d, s5).
     Option.bind (expect (CHR '' '') s5) (\<lambda>s6.
     Option.bind (read_digits 2 s6) (\<lambda>(h, s7).
     Option.bind (expect (CHR '':'') s7) (\<lambda>s8.
     Option.bind (read_digits 2 s8) (\<lambda>(mi, s9).
     Option.bind (expect (CHR '':'') s9) (\<lambda>s10.
     Option.bind (read_digits 2 s10) (\<lambda>(sec, s11).
       if s11 = [] then Some (y, mo, d, h, mi, sec) else None)))))))))))"

section \<open>The process environment\<close>

text \<open>
  What a request can read: the environment variables, the result of
  \<open>socket.gethostname()\<close> (a system call, which raises \<open>OSError\<close> when it fails), the
  clock reading returned by \<open>datetime.now()\<close> and the interpreter's \<open>sys.version\<close>.
\<close>

record world =
  environ :: "string \<Rightarrow> string option"
  gethostname :: "exn + string"
  now :: datetime
  sys_version :: string

text \<open>\<open>os.getenv(key, default)\<close> with a string default.\<close>

definition getenv :: "(string \<Rightarrow> string option) \<Rightarrow> string \<Rightarrow> string \<Rightarrow> string" where
  "getenv env key dflt = (case env key of None \<Rightarrow> dflt | Some v \<Rightarrow> v)"

section \<open>The home page template\<close>

text \<open>
  \<open>HTML_TEMPLATE\<close> is the triple-quoted literal of app.py, lines 15 to 190: a newline,
  then the lines 16 to 189, each followed by a newline. The lines are listed in five
  groups, separated by the four lines that hold a \<open>{{ ... }}\<close> expression. Characters
  outside ASCII are given by their UTF-8 bytes.
\<close>

definition template_head :: "string list" where
  \<open>template_head = [
    ''<!DOCTYPE html>'',
    ''<html lang="en">'',
    ''<head>'',
    ''    <meta charset="UTF-8">'',
    ''    <meta name="viewport" content="width=device-width, initial-scale=1.0">'',
    ''    <title>HNG13 DevOps - Stage 1</title>'',
    ''    <style>'',
    ''        * {'',
    ''            margin: 0;'',
    ''            padding: 0;'',
    ''            box-sizing: border-box;'',
    ''        }'',
    ''        '',
    ''        body {'',
    ''            font-family: 'Segoe UI', Tahoma, Geneva, Verdana, sans-serif;'',
    ''            background: linear-gradient(135deg, #667eea 0%, #764ba2 100%);'',
    ''            min-height: 100vh;'',
    ''            display: flex;'',
    ''            justify-content: center;'',
    ''            align-items: center;'',
    ''            padding: 20px;'',
    ''        }'',
    ''        '',
    ''        .container {'',
    ''            background: white;'',
    ''            border-radius: 20px;'',
    ''            box-shadow: 0 20px 60px rgba(0, 0, 0, 0.3);'',
    ''            padding: 40px;'',
    ''            max-width: 600px;'',
    ''            width: 100%;'',
    ''            animation: slideIn 0.5s ease-out;'',
    ''        }'',
    ''        '',
    ''        @keyframes slideIn {'',
    ''            from {'',
    ''                opacity: 0;'',
    ''                transform: translateY(-30px);'',
    ''            }'',
    ''            to {'',
    ''                opacity: 1;'',
    ''                transform: translateY(0);'',
    ''            }'',
    ''        }'',
    ''        '',
    ''        h1 {'',
    ''            color: #333;'',
    ''            margin-bottom: 10px;'',
    ''            font-size: 2.5em;'',
    ''            text-align: center;'',
    ''        }'',
    ''        '',
    ''        .subtitle {'',
    ''            color: #667eea;'',
    ''            text-align: center;'',
    ''            font-size: 1.2em;'',
    ''            margin-bottom: 30px;'',
    ''            font-weight: 500;'',
    ''        }'',
    ''        '',
    ''        .status {'',
    ''            background: #f0f4ff;'',
    ''            border-left: 4px solid #667eea;'',
    ''            padding: 20px;'',
    ''            border-radius: 8px;'',
    ''            margin: 20px 0;'',
    ''        }'',
    ''        '',
    ''        .status-item {'',
    ''            display: flex;'',
    ''            justify-content: space-between;'',
    ''            padding: 10px 0;'',
    ''            border-bottom: 1px solid #e0e0e0;'',
    ''        }'',
    ''        '',
    ''        .status-item:last-child {'',
    ''            border-bottom: none;'',
    ''        }'',
    ''        '',
    ''        .label {'',
    ''            font-weight: 600;'',
    ''            color: #555;'',
    ''        }'',
    ''        '',
    ''        .value {'',
    ''            color: #667eea;'',
    ''            font-family: 'Courier New', monospace;'',
    ''        }'',
    ''        '',
    ''        .success {'',
    ''            background: #d4edda;'',
    ''            color: #155724;'',
    ''            padding: 15px;'',
    ''            border-radius: 8px;'',
    ''            text-align: center;'',
    ''            font-weight: 600;'',
    ''            margin-top: 20px;'',
    ''        }'',
    ''        '',
    ''        .api-link {'',
    ''            display: block;'',
    ''            background: #667eea;'',
    ''            color: white;'',
    ''            text-decoration: none;'',
    ''            padding: 12px 24px;'',
    ''            border-radius: 8px;'',
    ''            text-align: center;'',
    ''            margin-top: 20px;'',
    ''            transition: background 0.3s;'',
    ''        }'',
    ''        '',
    ''        .api-link:hover {'',
    ''            background: #764ba2;'',
    ''        }'',
    ''        '',
    ''        .footer {'',
    ''            text-align: center;'',
    ''            margin-top: 30px;'',
    ''            color: #888;'',
    ''            font-size: 0.9em;'',
    ''        }'',
    ''        '',
    ''        .badge {'',
    ''            display: inline-block;'',
    ''            background: #28a745;'',
    ''            color: white;'',
    ''            padding: 4px 12px;'',
    ''            border-radius: 12px;'',
    ''            font-size: 0.8em;'',
    ''            font-weight: 600;'',
    ''        }'',
    ''    </style>'',
    ''</head>'',
    ''<body>'',
    ''    <div class="container">'',
    ''        <h1>'' @ [CHR 0xF0, CHR 0x9F, CHR 0x9A, CHR 0x80] @ '' HNG13 DevOps</h1>'',
    ''        <div class="subtitle">Stage 1 - Automated Deployment</div>'',
    ''        '',
    ''        <div class="success">'',
    ''            '' @ [CHR 0xE2, CHR 0x9C, CHR 0x85] @ '' Application Successfully Deployed!'',
    ''        </div>'',
    ''        '',
    ''        <div class="status">'',
    ''            <div class="status-item">'',
    ''                <span class="label">Status:</span>'',
    ''                <span class="value"><span class="badge">RUNNING</span></span>'',
    ''            </div>'',
    ''            <div class="status-item">'',
    ''                <span class="label">Hostname:</span>'']\<close>

definition template_hostname_to_time :: "string list" where
  \<open>template_hostname_to_time = [
    ''            </div>'',
    ''            <div class="status-item">'',
    ''                <span class="label">Server Time:</span>'']\<close>

definition template_time_to_port :: "string list" where
  \<open>template_time_to_port = [
    ''            </div>'',
    ''            <div class="status-item">'',
    ''                <span class="label">Port:</span>'']\<close>

definition template_port_to_environment :: "string list" where
  \<open>template_port_to_environment = [
    ''            </div>'',
    ''            <div class="status-item">'',
    ''                <span class="label">Environment:</span>'']\<close>

definition template_tail :: "string list" where
  \<open>template_tail = [
    ''            </div>'',
    ''        </div>'',
    ''        '',
    ''        <a href="/api/health" class="api-link">'' @ [CHR 0xF0, CHR 0x9F, CHR 0x93, CHR 0x8A] @ '' Check Health API</a>'',
    ''        <a href="/api/info" class="api-link">'' @ [CHR 0xE2, CHR 0x84, CHR 0xB9, CHR 0xEF, CHR 0xB8, CHR 0x8F] @ '' View System Info</a>'',
    ''        '',
    ''        <div class="footer">'',
    ''            <p>Deployed with '' @ [CHR 0xE2, CHR 0x9D, CHR 0xA4, CHR 0xEF, CHR 0xB8, CHR 0x8F] @ '' using Docker & Nginx</p>'',
    ''            <p style="margin-top: 5px;">HNG Internship 13.0 | DevOps Track</p>'',
    ''        </div>'',
    ''    </div>'',
    ''</body>'',
    ''</html>'']\<close>

definition py_lines :: "string list \<Rightarrow> string" where
  "py_lines ls = concat (map (\<lambda>l. l @ [CHR 0x0A]) ls)"

definition HTML_TEMPLATE :: string where
  \<open>HTML_TEMPLATE =
     CHR 0x0A #
     py_lines template_head @
     py_lines [''                <span class="value">{{ hostname }}</span>''] @
     py_lines template_hostname_to_time @
     py_lines [''                <span class="value">{{ current_time }}</span>''] @
     py_lines template_time_to_port @
     py_lines [''                <span class="value">{{ port }}</span>''] @
     py_lines template_port_to_environment @
     py_lines [''                <span class="value">{{ environment }}</span>''] @
     py_lines template_tail\<close>

section \<open>Rendering: Jinja2 as render_template_string uses it\<close>

text \<open>
  \<open>markupsafe.escape\<close>: Flask switches autoescaping on for templates given as strings,
  so the value of every \<open>{{ ... }}\<close> expression passes through it.
\<close>

definition escape_char :: "char \<Rightarrow> string" where
  \<open>escape_char c =
     (if c = CHR ''&'' then ''&amp;''
      else if c = CHR ''>'' then ''&gt;''
      else if c = CHR ''<'' then ''&lt;''
      else if c = CHR 0x27 then ''&#39;''
      else if c = CHR 0x22 then ''&#34;''
      else [c])\<close>

definition escape :: "string \<Rightarrow> string" where
  "escape s = concat (map escape_char s)"

text \<open>
  The lexer, restricted to what the template uses: text, and expressions
  \<open>{{ name }}\<close> whose content is a variable name surrounded by blanks. The first
  argument tells whether the scan is inside an expression, the second holds the
  characters read so far, in reverse. Statements \<open>{% ... %}\<close> and comments
  \<open>{# ... #}\<close> are not recognised; the template has neither. An expression that is
  still open at the end of the source is a syntax error in Jinja2; the scan returns its
  characters as text.
\<close>

datatype piece = Text string | Expr string

definition strip_blanks :: "string \<Rightarrow> string" where
  "strip_blanks s =
     rev (dropWhile (\<lambda>c. c = CHR '' '') (rev (dropWhile (\<lambda>c. c = CHR '' '') s)))"

fun scan :: "bool \<Rightarrow> string \<Rightarrow> string \<Rightarrow> piece list" where
  "scan inside acc (a # b # cs) =
     (if \<not> inside \<and> a = CHR ''{'' \<and> b = CHR ''{'' then Text (rev acc) # scan True [] cs
      else if inside \<and> a = CHR ''}'' \<and> b = CHR ''}''
        then Expr (strip_blanks (rev acc)) # scan False [] cs
      else scan inside (a # acc) (b # cs))"
| "scan inside acc cs = [Text (rev acc @ cs)]"

text \<open>Jinja2 drops one newline at the end of the template source (\<open>keep_trailing_newline\<close> is off).\<close>

definition drop_trailing_newline :: "string \<Rightarrow> string" where
  "drop_trailing_newline s = (if s \<noteq> [] \<and> last s = CHR 0x0A then butlast s else s)"

text \<open>
  The context holds the keyword arguments of \<open>render_template_string\<close>, all of them
  strings here. A name that the context does not define renders as the empty string.
\<close>

definition lookup :: "(string \<times> string) list \<Rightarrow> string \<Rightarrow> string" where
  "lookup ctx name = (case map_of ctx name of None \<Rightarrow> [] | Some v \<Rightarrow> v)"

fun render_piece :: "(string \<times> string) list \<Rightarrow> piece \<Rightarrow> string" where
  "render_piece ctx (Text t) = t"
| "render_piece ctx (Expr name) = escape (lookup ctx name)"

definition render_template_string :: "string \<Rightarrow> (string \<times> string) list \<Rightarrow> string" where
  "render_template_string source ctx =
     concat (map (render_piece ctx) (scan False [] (drop_trailing_newline source)))"

section \<open>The view functions and error handlers of app.py\<close>

definition home :: "world \<Rightarrow> exn + response" where
  "home w =
     (case gethostname w of
        Inl e \<Rightarrow> Inl e
      | Inr h \<Rightarrow>
          Inr \<lparr>status_code = 200,
               body = Html (render_template_string HTML_TEMPLATE
                 [(''hostname'', h),
                  (''current_time'', strftime (now w)),
                  (''port'', getenv (environ w) ''PORT'' ''5000''),
                  (''environment'', getenv (environ w) ''ENVIRONMENT'' ''production'')])\<rparr>)"

definition health :: "world \<Rightarrow> response" where
  "health w =
     \<lparr>status_code = 200,
      body = jsonify
        [(''status'', JString ''healthy''),
         (''timestamp'', JString (isoformat (now w))),
         (''service'', JString ''hng13-devops-stage1''),
         (''version'', JString ''1.0.0'')]\<rparr>"

definition info :: "world \<Rightarrow> exn + response" where
  "info w =
     (case gethostname w of
        Inl e \<Rightarrow> Inl e
      | Inr h \<Rightarrow>
          Inr \<lparr>status_code = 200,
               body = jsonify
                 [(''application'', JString ''HNG13 DevOps Stage 1''),
                  (''hostname'', JString h),
                  (''timestamp'', JString (isoformat (now w))),
                  (''port'', JString (getenv (environ w) ''PORT'' ''5000'')),
                  (''environment'', JString (getenv (environ w) ''ENVIRONMENT'' ''production'')),
                  (''python_version'', JString (sys_version w)),
                  (''status'', JString ''running'')]\<rparr>)"

definition status :: response where
  "status =
     \<lparr>status_code = 200,
      body = jsonify
        [(''status'', JString ''ok''),
         (''message'', JString ''Application is running successfully'')]\<rparr>"

definition not_found :: "exn \<Rightarrow> response" where
  "not_found error =
     \<lparr>status_code = 404,
      body = jsonify
        [(''error'', JString ''Not Found''),
         (''message'', JString ''The requested endpoint does not exist''),
         (''status'', JNumber 404)]\<rparr>"

definition internal_error :: "exn \<Rightarrow> response" where
  "internal_error error =
     \<lparr>status_code = 500,
      body = jsonify
        [(''error'', JString ''Internal Server Error''),
         (''message'', JString ''An unexpected error occurred''),
         (''status'', JNumber 500)]\<rparr>"

section \<open>Flask: routing and the error boundary\<close>

text \<open>
  The decorators of app.py register four rules, each with the default methods of
  \<open>@app.route\<close> (GET, to which Flask adds HEAD and OPTIONS), a handler for 404 and a
  handler for 500. The functions below follow Flask's request path:
  \<open>dispatch_request\<close> matches the rule and calls the view, \<open>full_dispatch_request\<close>
  turns HTTP errors into their registered handler's response, \<open>handle_exception\<close>
  deals with every other exception, and \<open>wsgi_app\<close> is the whole application. Rules
  are matched on the exact path; what Flask and Werkzeug add on their own (the rule for
  static files, the redirect of a path with doubled slashes) is not in app.py and is
  left out. HEAD runs the view like GET; OPTIONS is answered by Flask itself.
\<close>

datatype http_method = GET | HEAD | OPTIONS | POST | PUT | PATCH | DELETE

record request =
  req_method :: http_method
  req_path :: string

datatype endpoint = Home | Health | Info | Status

definition url_map :: "(string \<times> endpoint) list" where
  "url_map =
     [(''/'', Home), (''/api/health'', Health), (''/api/info'', Info),
      (''/api/status'', Status)]"

definition route_methods :: "http_method list" where
  "route_methods = [GET, HEAD, OPTIONS]"

fun view_functions :: "endpoint \<Rightarrow> world \<Rightarrow> exn + response" where
  "view_functions Home w = home w"
| "view_functions Health w = Inr (health w)"
| "view_functions Info w = info w"
| "view_functions Status w = Inr status"

definition dispatch_request :: "world \<Rightarrow> request \<Rightarrow> exn + response" where
  "dispatch_request w rq =
     (case map_of url_map (req_path rq) of
        None \<Rightarrow> Inl NotFound
      | Some ep \<Rightarrow>
          if req_method rq \<notin> set route_methods then Inl MethodNotAllowed
          else if req_method rq = OPTIONS then Inr \<lparr>status_code = 200, body = Framework\<rparr>
          else view_functions ep w)"

fun handle_user_exception :: "exn \<Rightarrow> exn + response" where
  "handle_user_exception NotFound = Inr (not_found NotFound)"
| "handle_user_exception MethodNotAllowed = Inr \<lparr>status_code = 405, body = Framework\<rparr>"
| "handle_user_exception e = Inl e"

definition full_dispatch_request :: "world \<Rightarrow> request \<Rightarrow> exn + response" where
  "full_dispatch_request w rq =
     (case dispatch_request w rq of Inr r \<Rightarrow> Inr r | Inl e \<Rightarrow> handle_user_exception e)"

text \<open>
  An exception that is not an HTTP error and has no handler of its own reaches
  \<open>handle_exception\<close>. Outside debug mode Flask answers it with the handler
  registered for 500. In debug mode (\<open>PROPAGATE_EXCEPTIONS\<close> is unset, so it follows
  the debug flag) Flask raises the exception again and the handler for 500 is not
  used: the exception leaves the application.
\<close>

definition handle_exception :: "bool \<Rightarrow> exn \<Rightarrow> exn + response" where
  "handle_exception debug_mode e = (if debug_mode then Inl e else Inr (internal_error e))"

definition wsgi_app :: "bool \<Rightarrow> world \<Rightarrow> request \<Rightarrow> exn + response" where
  "wsgi_app debug_mode w rq =
     (case full_dispatch_request w rq of
        Inr r \<Rightarrow> Inr r
      | Inl e \<Rightarrow> handle_exception debug_mode e)"

section \<open>Startup\<close>

definition is_space :: "char \<Rightarrow> bool" where
  "is_space c = ((of_char c :: nat) \<in> set [9, 10, 11, 12, 13, 28, 29, 30, 31, 32])"

definition strip :: "string \<Rightarrow> string" where
  "strip s = rev (dropWhile is_space (rev (dropWhile is_space s)))"

fun no_double_underscore :: "string \<Rightarrow> bool" where
  "no_double_underscore (a # b # cs) =
     (\<not> (a = CHR ''_'' \<and> b = CHR ''_'') \<and> no_double_underscore (b # cs))"
| "no_double_underscore cs = True"

text \<open>
  \<open>int(s)\<close> for a string, on ASCII input: blanks around the literal are dropped, a sign
  may come first, and the digits may be grouped by single underscores. More than 4300
  digits are refused. \<open>None\<close> is \<open>ValueError\<close>.
\<close>

definition py_int :: "string \<Rightarrow> int option" where
  "py_int s =
     (let t = strip s;
          negative = (t \<noteq> [] \<and> hd t = CHR ''-'');
          digits = (if t \<noteq> [] \<and> (hd t = CHR ''-'' \<or> hd t = CHR ''+'') then tl t else t)
      in if digits \<noteq> [] \<and> is_digit (hd digits) \<and> is_digit (last digits) \<and>
            list_all (\<lambda>c. is_digit c \<or> c = CHR ''_'') digits \<and>
            no_double_underscore digits \<and>
            length (filter is_digit digits) \<le> 4300
         then Some ((if negative then - 1 else 1) * int (decimal_value (filter is_digit digits)))
         else None)"

text \<open>\<open>str.lower()\<close> on ASCII letters.\<close>

definition lower_char :: "char \<Rightarrow> char" where
  "lower_char c =
     (if 65 \<le> (of_char c :: nat) \<and> (of_char c :: nat) \<le> 90
      then char_of ((of_char c :: nat) + 32) else c)"

definition lower :: "string \<Rightarrow> string" where
  "lower s = map lower_char s"

text \<open>
  The arguments \<open>main\<close> hands to \<open>app.run\<close>. The three \<open>print\<close> calls before it write
  to standard output only and are left out.
\<close>

record run_args =
  host :: string
  port :: int
  debug :: bool

definition main :: "(string \<Rightarrow> string option) \<Rightarrow> exn + run_args" where
  "main env =
     (case (case env ''PORT'' of None \<Rightarrow> Some 5000 | Some v \<Rightarrow> py_int v) of
        None \<Rightarrow> Inl ValueError
      | Some p \<Rightarrow>
          Inr \<lparr>host = ''0.0.0.0'', port = p,
               debug = (lower (getenv env ''DEBUG'' ''False'') = ''true'')\<rparr>)"

text \<open>
  The development server started by \<open>app.run\<close>: it answers one request after the other.
  An exception that leaves the application (debug mode) is caught by Werkzeug's
  debugger, which answers with its own 500 page.
\<close>

definition serve :: "run_args \<Rightarrow> world \<Rightarrow> request \<Rightarrow> response" where
  "serve args w rq =
     (case wsgi_app (debug args) w rq of
        Inr r \<Rightarrow> r
      | Inl e \<Rightarrow> \<lparr>status_code = 500, body = Framework\<rparr>)"


section \<open>Reading a response\<close>

text \<open>
  The observations the properties below are stated with: the member of a JSON object
  body under a key, the keys of the object in the order of the dictionary literal, and
  the text of an HTML body.
\<close>

definition field :: "response \<Rightarrow> string \<Rightarrow> json option" where
  "field r k = (case body r of Json (JObject kvs) \<Rightarrow> map_of kvs k | _ \<Rightarrow> None)"

definition keys :: "response \<Rightarrow> string list" where
  "keys r = (case body r of Json (JObject kvs) \<Rightarrow> map fst kvs | _ \<Rightarrow> [])"

definition html_body :: "response \<Rightarrow> string option" where
  "html_body r = (case body r of Html s \<Rightarrow> Some s | _ \<Rightarrow> None)"

section \<open>Concrete inputs\<close>

text \<open>Inputs at which the properties below are instantiated.\<close>

definition example_clock :: datetime where
  "example_clock =
     \<lparr>year = 2026, month = 11, day = 3, hour = 9, minute = 5, second = 7,
      microsecond = 12\<rparr>"

definition example_world :: world where
  "example_world =
     \<lparr>environ = [''PORT'' \<mapsto> ''8080'', ''ENVIRONMENT'' \<mapsto> ''staging''],
      gethostname = Inr ''web-01'',
      now = example_clock,
      sys_version = ''3.11.4 (main, Jun  7 2023, 00:00:00) [GCC 12.2.0]''\<rparr>"

definition example_args :: run_args where
  "example_args = \<lparr>host = ''0.0.0.0'', port = 8080, debug = False\<rparr>"



section \<open>The rendered home page\<close>

text \<open>
  The text of the template between its expressions. Every expression stands in a line
  of the form \<open><span class="value">{{ name }}</span>\<close>, indented by sixteen blanks:
  \<open>value_open\<close> is the part of that line before the expression, \<open>value_close\<close> the
  part after it, with the newline. The last piece has lost the final newline of the
  template.
\<close>

definition value_open :: string where
  \<open>value_open = replicate 16 (CHR '' '') @ ''<span class="value">''\<close>

definition value_close :: string where
  \<open>value_close = ''</span>'' @ [CHR 0x0A]\<close>

definition page_head :: string where
  "page_head = CHR 0x0A # py_lines template_head @ value_open"

definition page_hostname_to_time :: string where
  "page_hostname_to_time = value_close @ py_lines template_hostname_to_time @ value_open"

definition page_time_to_port :: string where
  "page_time_to_port = value_close @ py_lines template_time_to_port @ value_open"

definition page_port_to_environment :: string where
  "page_port_to_environment =
     value_close @ py_lines template_port_to_environment @ value_open"

definition page_tail :: string where
  "page_tail = value_close @ butlast (py_lines template_tail)"

text \<open>
  A page shows the value \<open>v\<close> under a label when it holds the label's line followed by
  the value line with \<open>v\<close> escaped in it; this is the text a browser displays as \<open>v\<close>,
  since decoding the character references of the escaped text gives \<open>v\<close> back
  (\<open>unescape\<close> decodes the five references that \<open>escape\<close> produces).
\<close>

definition label_line :: "string \<Rightarrow> string" where
  \<open>label_line label = ''<span class="label">'' @ label @ '':</span>'' @ [CHR 0x0A]\<close>

definition shows_value :: "string \<Rightarrow> string \<Rightarrow> string \<Rightarrow> bool" where
  "shows_value label v html =
     sublist (label_line label @ value_open @ escape v @ ''</span>'') html"

function unescape :: "string \<Rightarrow> string" where
  "unescape [] = []"
| "unescape (c # cs) =
     (if c = CHR ''&'' \<and> prefix ''amp;'' cs then CHR ''&'' # unescape (drop 4 cs)
      else if c = CHR ''&'' \<and> prefix ''gt;'' cs then CHR ''>'' # unescape (drop 3 cs)
      else if c = CHR ''&'' \<and> prefix ''lt;'' cs then CHR ''<'' # unescape (drop 3 cs)
      else if c = CHR ''&'' \<and> prefix ''#39;'' cs then CHR 0x27 # unescape (drop 4 cs)
      else if c = CHR ''&'' \<and> prefix ''#34;'' cs then CHR 0x22 # unescape (drop 4 cs)
      else c # unescape cs)"
  by pat_completeness auto
termination
  by (relation "measure length") auto

text \<open>The characters that \<open>escape\<close> leaves as they are.\<close>

definition html_safe :: "char \<Rightarrow> bool" where
  "html_safe c =
     (c \<noteq> CHR ''&'' \<and> c \<noteq> CHR ''>'' \<and> c \<noteq> CHR ''<'' \<and> c \<noteq> CHR 0x27 \<and> c \<noteq> CHR 0x22)"

text \<open>No occurrence of the character \<open>x\<close> directly followed by \<open>y\<close>.\<close>

fun no_pair :: "char \<Rightarrow> char \<Rightarrow> string \<Rightarrow> bool" where
  "no_pair x y (a # b # cs) = (\<not> (a = x \<and> b = y) \<and> no_pair x y (b # cs))"
| "no_pair x y cs = True"

definition rendered_page :: "string \<Rightarrow> string \<Rightarrow> string \<Rightarrow> string \<Rightarrow> string" where
  "rendered_page h t p e =
     page_head @ escape h @ page_hostname_to_time @ escape t @ page_time_to_port @
     escape p @ page_port_to_environment @ escape e @ page_tail"

definition ampersand_world :: world where
  "ampersand_world = example_world\<lparr>gethostname := Inr ''r&d-web''\<rparr>"

section \<open>Properties\<close>

subsection \<open>Routing\<close>

lemma wsgi_app_status:
  "wsgi_app d w \<lparr>req_method = GET, req_path = ''/api/status''\<rparr> = Inr status"
  by (simp add: wsgi_app_def full_dispatch_request_def dispatch_request_def url_map_def
      route_methods_def)

lemma serve_status: "serve args w \<lparr>req_method = GET, req_path = ''/api/status''\<rparr> = status"
  by (simp add: serve_def wsgi_app_status)



subsection \<open>The JSON endpoints\<close>

text \<open>
  C1. Whatever the arguments of \<open>app.run\<close>, the environment variables, the hostname
  and the clock are, \<open>GET /api/status\<close> is answered with status 200 and the JSON object
  \<open>{"status": "ok", "message": "Application is running successfully"}\<close>.
\<close>

theorem status_endpoint_fixed:
  "serve args w \<lparr>req_method = GET, req_path = ''/api/status''\<rparr> =
     \<lparr>status_code = 200,
      body = Json (JObject [(''status'', JString ''ok''),
                            (''message'', JString ''Application is running successfully'')])\<rparr>"
  by (simp add: serve_status status_def jsonify_def)


subsection \<open>Errors\<close>



subsection \<open>Startup\<close>

text \<open>
  C9. When startup reaches \<open>app.run\<close>, the debug flag it passes is true exactly when
  the variable \<open>DEBUG\<close> is set and its value, lowercased, is \<open>"true"\<close>; for every other
  value, and when \<open>DEBUG\<close> is unset, it is false.
\<close>

theorem debug_flag_iff:
  assumes "main env = Inr args"
  shows "debug args = (\<exists>v. env ''DEBUG'' = Some v \<and> lower v = ''true'')"
  using assms
  by (auto simp: main_def getenv_def lower_def lower_char_def split: option.splits)

theorem debug_flag_iff_witness:
  "main [''DEBUG'' \<mapsto> ''TrUe''] = Inr \<lparr>host = ''0.0.0.0'', port = 5000, debug = True\<rparr> \<and>
   debug \<lparr>host = ''0.0.0.0'', port = 5000, debug = True\<rparr> =
     (\<exists>v. [''DEBUG'' \<mapsto> ''TrUe''] ''DEBUG'' = Some v \<and> lower v = ''true'')"
proof -
  have started: "main [''DEBUG'' \<mapsto> ''TrUe''] =
      Inr \<lparr>host = ''0.0.0.0'', port = 5000, debug = True\<rparr>"
    by code_simp
  from debug_flag_iff [OF started] started show ?thesis by simp
qed

lemma wsgi_app_info:
  "gethostname w = Inr h \<Longrightarrow>
   wsgi_app d w \<lparr>req_method = GET, req_path = ''/api/info''\<rparr> = info w"
  by (simp add: wsgi_app_def full_dispatch_request_def dispatch_request_def url_map_def
      route_methods_def info_def)

lemma serve_info:
  assumes "gethostname w = Inr h"
  shows "serve args w \<lparr>req_method = GET, req_path = ''/api/info''\<rparr> =
     \<lparr>status_code = 200,
      body = jsonify
        [(''application'', JString ''HNG13 DevOps Stage 1''),
         (''hostname'', JString h),
         (''timestamp'', JString (isoformat (now w))),
         (''port'', JString (getenv (environ w) ''PORT'' ''5000'')),
         (''environment'', JString (getenv (environ w) ''ENVIRONMENT'' ''production'')),
         (''python_version'', JString (sys_version w)),
         (''status'', JString ''running'')]\<rparr>"
  using assms by (simp add: serve_def wsgi_app_info [OF assms] info_def)

text \<open>
  C2, as amended. When the hostname can be read, \<open>GET /api/info\<close> is answered with
  status 200 and a JSON object whose keys are exactly \<open>application\<close>, \<open>hostname\<close>,
  \<open>timestamp\<close>, \<open>port\<close>, \<open>environment\<close>, \<open>python_version\<close> and \<open>status\<close>, each
  once, and whose \<open>status\<close> is \<open>"running"\<close>. The interpreter version is stored under
  \<open>python_version\<close>; there is no key \<open>runtime_version\<close>.
\<close>

theorem info_endpoint_keys:
  assumes "gethostname w = Inr h"
  shows "status_code (serve args w \<lparr>req_method = GET, req_path = ''/api/info''\<rparr>) = 200 \<and>
         set (keys (serve args w \<lparr>req_method = GET, req_path = ''/api/info''\<rparr>)) =
           {''application'', ''hostname'', ''timestamp'', ''port'', ''environment'',
            ''python_version'', ''status''} \<and>
         distinct (keys (serve args w \<lparr>req_method = GET, req_path = ''/api/info''\<rparr>)) \<and>
         field (serve args w \<lparr>req_method = GET, req_path = ''/api/info''\<rparr>) ''status'' =
           Some (JString ''running'')"
  unfolding serve_info [OF assms]
  by (simp add: keys_def field_def jsonify_def) 

theorem info_endpoint_keys_witness:
  "gethostname example_world = Inr ''web-01'' \<and>
   set (keys (serve example_args example_world \<lparr>req_method = GET, req_path = ''/api/info''\<rparr>)) =
           {''application'', ''hostname'', ''timestamp'', ''port'', ''environment'',
            ''python_version'', ''status''}"
proof -
  have h: "gethostname example_world = Inr ''web-01''" by (simp add: example_world_def)
  from info_endpoint_keys [OF h, of example_args] h show ?thesis by simp
qed

text \<open>
  The key set of C2 as stated, with \<open>runtime_version\<close>, is not the key set of the
  response.
\<close>

theorem info_keys_counterexample:
  "set (keys (serve example_args example_world \<lparr>req_method = GET, req_path = ''/api/info''\<rparr>)) \<noteq>
     {''application'', ''hostname'', ''timestamp'', ''port'', ''environment'',
      ''runtime_version'', ''status''}"
proof
  assume eq: "set (keys (serve example_args example_world
        \<lparr>req_method = GET, req_path = ''/api/info''\<rparr>)) =
     {''application'', ''hostname'', ''timestamp'', ''port'', ''environment'',
      ''runtime_version'', ''status''}"
  have h: "gethostname example_world = Inr ''web-01''" by (simp add: example_world_def)
  have absent: "''runtime_version'' \<notin>
      set (keys (serve example_args example_world \<lparr>req_method = GET, req_path = ''/api/info''\<rparr>))"
    unfolding serve_info [OF h] by (simp add: keys_def jsonify_def)
  have "''runtime_version'' \<in>
      set (keys (serve example_args example_world \<lparr>req_method = GET, req_path = ''/api/info''\<rparr>))"
    by (simp only: eq) simp
  with absent show False by simp
qed






subsection \<open>Decimal numbers and ISO-8601 timestamps\<close>

lemma of_char_digit_char: "d < 10 \<Longrightarrow> (of_char (digit_char d) :: nat) = 48 + d"
  by (simp add: digit_char_def)

lemma is_digit_digit_char: "d < 10 \<Longrightarrow> is_digit (digit_char d)"
  by (simp add: is_digit_def of_char_digit_char)

lemma digit_val_digit_char: "d < 10 \<Longrightarrow> digit_val (digit_char d) = d"
  by (simp add: digit_val_def of_char_digit_char)

lemma decimal_value_snoc: "decimal_value (s @ [c]) = 10 * decimal_value s + digit_val c"
  by (simp add: decimal_value_def)

lemma str_nat_digits: "list_all is_digit (str_nat n)"
proof (induction n rule: str_nat.induct)
  case (1 n)
  show ?case
  proof (cases "n < 10")
    case True
    then show ?thesis by (simp add: str_nat.simps [of n] is_digit_digit_char)
  next
    case False
    with 1 show ?thesis by (simp add: str_nat.simps [of n] is_digit_digit_char)
  qed
qed

lemma decimal_value_str_nat: "decimal_value (str_nat n) = n"
proof (induction n rule: str_nat.induct)
  case (1 n)
  show ?case
  proof (cases "n < 10")
    case True
    then show ?thesis
      by (simp add: str_nat.simps [of n] decimal_value_def digit_val_digit_char)
  next
    case False
    with 1 show ?thesis
      by (simp add: str_nat.simps [of n] decimal_value_snoc digit_val_digit_char)
  qed
qed

lemma length_str_nat: "n < 10 ^ w \<Longrightarrow> 0 < w \<Longrightarrow> length (str_nat n) \<le> w"
proof (induction n arbitrary: w rule: str_nat.induct)
  case (1 n)
  show ?case
  proof (cases "n < 10")
    case True
    with 1 show ?thesis by (simp add: str_nat.simps [of n])
  next
    case False
    obtain v where w: "w = Suc v" using \<open>0 < w\<close> by (cases w) auto
    from False "1.prems" w have v: "0 < v" by (cases v) auto
    from "1.prems" w have "n div 10 < 10 ^ v" by (simp add: less_mult_imp_div_less mult.commute)
    from "1.IH" [OF False this v] False w show ?thesis by (simp add: str_nat.simps [of n])
  qed
qed

lemma length_str_nat_pos: "0 < length (str_nat n)"
  by (subst str_nat.simps) simp

lemma decimal_value_zeros: "decimal_value (replicate k (CHR ''0'') @ s) = decimal_value s"
  by (induction k) (simp_all add: decimal_value_def digit_val_def)

lemma pad0_digits: "list_all is_digit (pad0 w n)"
  using str_nat_digits [of n] by (auto simp: pad0_def list_all_iff is_digit_def)

lemma decimal_value_pad0: "decimal_value (pad0 w n) = n"
  by (simp add: pad0_def decimal_value_zeros decimal_value_str_nat)

lemma length_pad0:
  assumes "n < 10 ^ w" "0 < w"
  shows "length (pad0 w n) = w"
  using length_str_nat [OF assms] by (simp add: pad0_def)

lemma read_digits_pad0:
  assumes "n < 10 ^ w" "0 < w"
  shows "read_digits w (pad0 w n @ rest) = Some (n, rest)"
  using length_pad0 [OF assms] by (simp add: read_digits_def pad0_digits decimal_value_pad0)

lemma read_digits_pad0_end:
  assumes "n < 10 ^ w" "0 < w"
  shows "read_digits w (pad0 w n) = Some (n, [])"
  using read_digits_pad0 [OF assms, of "[]"] by simp

lemma expect_Cons: "expect c (c # rest) = Some rest"
  by (simp add: expect_def)

lemma read_fraction_Nil: "read_fraction [] = Some 0"
  by (simp add: read_fraction_def)

lemma read_fraction_dot:
  assumes "us < 10 ^ 6"
  shows "read_fraction (CHR ''.'' # pad0 6 us) = Some us"
proof -
  from assms have "read_digits 6 (pad0 6 us @ []) = Some (us, [])"
    by (intro read_digits_pad0) simp_all
  then show ?thesis by (simp add: read_fraction_def expect_Cons)
qed

lemma fromisoformat_isoformat:
  assumes "valid_datetime dt"
  shows "fromisoformat (isoformat dt) = Some dt"
proof -
  from assms have b: "year dt < 10 ^ 4" "month dt < 10 ^ 2" "day dt < 10 ^ 2" "hour dt < 10 ^ 2"
    "minute dt < 10 ^ 2" "second dt < 10 ^ 2" "microsecond dt < 10 ^ 6"
    by (auto simp: valid_datetime_def days_in_month_def split: if_splits)
  show ?thesis
  proof (cases "microsecond dt = 0")
    case True
    then have "\<lparr>year = year dt, month = month dt, day = day dt, hour = hour dt,
        minute = minute dt, second = second dt, microsecond = 0\<rparr> = dt"
      by (cases dt) simp
    with True assms show ?thesis
      unfolding fromisoformat_def isoformat_def
      by (simp add: read_digits_pad0 [OF b(1)] read_digits_pad0 [OF b(2)]
          read_digits_pad0 [OF b(3)] read_digits_pad0 [OF b(4)] read_digits_pad0 [OF b(5)]
          read_digits_pad0_end [OF b(6)] expect_Cons read_fraction_Nil Let_def
          valid_datetime_def)
  next
    case False
    have "\<lparr>year = year dt, month = month dt, day = day dt, hour = hour dt,
        minute = minute dt, second = second dt, microsecond = microsecond dt\<rparr> = dt"
      by simp
    with False assms show ?thesis
      unfolding fromisoformat_def isoformat_def
      by (simp add: read_digits_pad0 [OF b(1)] read_digits_pad0 [OF b(2)]
          read_digits_pad0 [OF b(3)] read_digits_pad0 [OF b(4)] read_digits_pad0 [OF b(5)]
          read_digits_pad0 [OF b(6)] expect_Cons read_fraction_dot [OF b(7)] Let_def
          valid_datetime_def)
  qed
qed

lemma serve_health:
  "serve args w \<lparr>req_method = GET, req_path = ''/api/health''\<rparr> = health w"
  by (simp add: serve_def wsgi_app_def full_dispatch_request_def dispatch_request_def
      url_map_def route_methods_def)

text \<open>
  C3. \<open>GET /api/health\<close> is answered with status 200 and a JSON object whose \<open>status\<close>
  is \<open>"healthy"\<close>, whose \<open>service\<close> is \<open>"hng13-devops-stage1"\<close>, whose \<open>version\<close> is
  \<open>"1.0.0"\<close> and whose \<open>timestamp\<close> is a string that reads as an ISO-8601 datetime:
  reading it gives back the clock value the handler took.
\<close>

theorem health_endpoint:
  assumes "valid_datetime (now w)"
  shows "status_code (serve args w \<lparr>req_method = GET, req_path = ''/api/health''\<rparr>) = 200 \<and>
         field (serve args w \<lparr>req_method = GET, req_path = ''/api/health''\<rparr>) ''status'' =
           Some (JString ''healthy'') \<and>
         field (serve args w \<lparr>req_method = GET, req_path = ''/api/health''\<rparr>) ''service'' =
           Some (JString ''hng13-devops-stage1'') \<and>
         field (serve args w \<lparr>req_method = GET, req_path = ''/api/health''\<rparr>) ''version'' =
           Some (JString ''1.0.0'') \<and>
         (\<exists>ts. field (serve args w \<lparr>req_method = GET, req_path = ''/api/health''\<rparr>)
                 ''timestamp'' = Some (JString ts) \<and>
               fromisoformat ts = Some (now w))"
  unfolding serve_health
  by (simp add: health_def field_def jsonify_def fromisoformat_isoformat [OF assms])

theorem health_endpoint_witness:
  "valid_datetime (now example_world) \<and>
   status_code (serve example_args example_world
     \<lparr>req_method = GET, req_path = ''/api/health''\<rparr>) = 200 \<and>
   (\<exists>ts. field (serve example_args example_world
              \<lparr>req_method = GET, req_path = ''/api/health''\<rparr>) ''timestamp'' =
            Some (JString ts) \<and>
         fromisoformat ts = Some (now example_world))"
proof -
  have v: "valid_datetime (now example_world)"
    by (simp add: example_world_def example_clock_def valid_datetime_def days_in_month_def)
  from health_endpoint [OF v, of example_args] v show ?thesis by simp
qed

subsection \<open>The home page\<close>

lemma no_pair_append:
  "no_pair x y (s @ t) =
     (no_pair x y s \<and> no_pair x y t \<and> (s = [] \<or> t = [] \<or> last s \<noteq> x \<or> hd t \<noteq> y))"
proof (induction s)
  case Nil
  then show ?case by simp
next
  case (Cons a s)
  then show ?case by (cases s; cases t) auto
qed

lemma py_lines_Cons: "py_lines (l # ls) = l @ CHR 0x0A # py_lines ls"
  by (simp add: py_lines_def)

lemma py_lines_Nil: "py_lines [] = []"
  by (simp add: py_lines_def)

lemma py_lines_eq_Nil: "py_lines ls = [] \<longleftrightarrow> ls = []"
  by (cases ls) (simp_all add: py_lines_Cons py_lines_Nil)

lemma last_py_lines: "ls \<noteq> [] \<Longrightarrow> last (py_lines ls) = CHR 0x0A"
  by (induction ls) (auto simp: py_lines_Cons py_lines_Nil py_lines_eq_Nil)

lemma no_pair_py_lines:
  assumes "list_all (no_pair x y) ls" "x \<noteq> CHR 0x0A" "y \<noteq> CHR 0x0A"
  shows "no_pair x y (py_lines ls)"
  using assms(1)
proof (induction ls)
  case Nil
  then show ?case by (simp add: py_lines_Nil)
next
  case (Cons l ls)
  have "no_pair x y (l @ [CHR 0x0A])"
    using Cons.prems assms(3) by (simp add: no_pair_append)
  moreover have "no_pair x y (py_lines ls)" using Cons by simp
  moreover have "last (l @ [CHR 0x0A]) \<noteq> x" using assms(2) by simp
  ultimately have "no_pair x y ((l @ [CHR 0x0A]) @ py_lines ls)"
    by (subst no_pair_append) simp
  then show ?case by (simp add: py_lines_Cons)
qed

lemma scan_text_open:
  assumes "no_pair (CHR ''{'') (CHR ''{'') t" "t = [] \<or> last t \<noteq> CHR ''{''"
  shows "scan False acc (t @ CHR ''{'' # CHR ''{'' # rest) = Text (rev acc @ t) # scan True [] rest"
  using assms
proof (induction t arbitrary: acc)
  case Nil
  then show ?case by simp
next
  case (Cons a t)
  show ?case
  proof (cases t)
    case Nil
    with Cons.prems show ?thesis by simp
  next
    case (Cons b cs)
    with Cons.prems Cons.IH [of "a # acc"] show ?thesis by simp
  qed
qed

lemma scan_text_end:
  assumes "no_pair (CHR ''{'') (CHR ''{'') t"
  shows "scan False acc t = [Text (rev acc @ t)]"
  using assms
proof (induction t arbitrary: acc)
  case Nil
  then show ?case by simp
next
  case (Cons a t)
  show ?case
  proof (cases t)
    case Nil
    then show ?thesis by simp
  next
    case (Cons b cs)
    with Cons.prems Cons.IH [of "a # acc"] show ?thesis by simp
  qed
qed

lemma no_pair_Cons:
  "no_pair x y (a # t) = (no_pair x y t \<and> (t = [] \<or> a \<noteq> x \<or> hd t \<noteq> y))"
  using no_pair_append [of x y "[a]" t] by simp

lemma no_pair_butlast: "no_pair x y s \<Longrightarrow> no_pair x y (butlast s)"
proof (cases "s = []")
  case True
  then show ?thesis by simp
next
  case False
  assume "no_pair x y s"
  with False have "no_pair x y (butlast s @ [last s])" by simp
  then show ?thesis by (simp only: no_pair_append)
qed

lemma no_pair_absent: "x \<notin> set s \<Longrightarrow> no_pair x y s"
  by (induction s) (auto simp: no_pair_Cons)

lemma no_pair_sublist: "sublist s t \<Longrightarrow> no_pair x y t \<Longrightarrow> no_pair x y s"
  unfolding sublist_def by (auto simp: no_pair_append)

lemma value_open_facts:
  "value_open \<noteq> []" "last value_open = CHR ''>''"
  "CHR ''{'' \<notin> set value_open" "CHR ''&'' \<notin> set value_open"
  by code_simp+

lemma value_close_facts:
  "value_close \<noteq> []" "last value_close = CHR 0x0A" "hd value_close = CHR ''<''"
  "CHR ''{'' \<notin> set value_close" "CHR ''&'' \<notin> set value_close"
  by (simp_all add: value_close_def)

lemma no_pair_between:
  assumes "list_all (no_pair x y) ls" "x \<noteq> CHR 0x0A" "y \<noteq> CHR 0x0A"
    "no_pair x y value_close" "no_pair x y value_open"
  shows "no_pair x y (value_close @ py_lines ls @ value_open)"
proof (cases "ls = []")
  case True
  with assms show ?thesis
    by (simp add: py_lines_Nil no_pair_append value_close_facts)
next
  case False
  with assms no_pair_py_lines [OF assms(1-3)] show ?thesis
    by (simp add: no_pair_append value_close_facts last_py_lines py_lines_eq_Nil)
qed

lemma template_nonempty:
  "template_head \<noteq> []" "template_tail \<noteq> []"
  by (simp_all add: template_head_def template_tail_def)

text \<open>
  A pair of characters that occurs in no line of the template and whose first character
  is neither a newline nor part of \<open>value_open\<close> and \<open>value_close\<close> occurs in none of
  the five pieces of the page.
\<close>

lemma page_pieces_no_pair:
  assumes "list_all (no_pair x y) template_head"
    and "list_all (no_pair x y) template_hostname_to_time"
    and "list_all (no_pair x y) template_time_to_port"
    and "list_all (no_pair x y) template_port_to_environment"
    and "list_all (no_pair x y) template_tail"
    and "x \<noteq> CHR 0x0A" and "y \<noteq> CHR 0x0A"
    and "x \<notin> set value_open" and "x \<notin> set value_close"
  shows "no_pair x y page_head"
    and "no_pair x y page_hostname_to_time"
    and "no_pair x y page_time_to_port"
    and "no_pair x y page_port_to_environment"
    and "no_pair x y page_tail"
proof -
  note vo = no_pair_absent [OF assms(8), of y]
  note vc = no_pair_absent [OF assms(9), of y]
  have "no_pair x y (py_lines template_head)"
    by (rule no_pair_py_lines [OF assms(1) assms(6) assms(7)])
  with vo assms(6) show "no_pair x y page_head"
    by (simp add: page_head_def no_pair_Cons no_pair_append last_py_lines template_nonempty
        py_lines_eq_Nil)
  show "no_pair x y page_hostname_to_time"
    unfolding page_hostname_to_time_def
    by (rule no_pair_between [OF assms(2) assms(6) assms(7) vc vo])
  show "no_pair x y page_time_to_port"
    unfolding page_time_to_port_def
    by (rule no_pair_between [OF assms(3) assms(6) assms(7) vc vo])
  show "no_pair x y page_port_to_environment"
    unfolding page_port_to_environment_def
    by (rule no_pair_between [OF assms(4) assms(6) assms(7) vc vo])
  have "no_pair x y (py_lines template_tail)"
    by (rule no_pair_py_lines [OF assms(5) assms(6) assms(7)])
  then have "no_pair x y (butlast (py_lines template_tail))"
    by (rule no_pair_butlast)
  with vc assms(6) show "no_pair x y page_tail"
    by (simp add: page_tail_def no_pair_append value_close_facts)
qed

lemma page_piece_ends:
  "last page_head = CHR ''>''" "last page_hostname_to_time = CHR ''>''"
  "last page_time_to_port = CHR ''>''" "last page_port_to_environment = CHR ''>''"
  by (simp_all add: page_head_def page_hostname_to_time_def page_time_to_port_def
      page_port_to_environment_def value_open_facts)

lemma page_piece_starts:
  "page_hostname_to_time \<noteq> []" "hd page_hostname_to_time = CHR ''<''"
  "page_time_to_port \<noteq> []" "hd page_time_to_port = CHR ''<''"
  "page_port_to_environment \<noteq> []" "hd page_port_to_environment = CHR ''<''"
  "page_tail \<noteq> []" "hd page_tail = CHR ''<''"
  by (simp_all add: page_hostname_to_time_def page_time_to_port_def
      page_port_to_environment_def page_tail_def value_close_facts)

lemma template_lines_no_open:
  "list_all (no_pair (CHR ''{'') (CHR ''{'')) template_head"
  "list_all (no_pair (CHR ''{'') (CHR ''{'')) template_hostname_to_time"
  "list_all (no_pair (CHR ''{'') (CHR ''{'')) template_time_to_port"
  "list_all (no_pair (CHR ''{'') (CHR ''{'')) template_port_to_environment"
  "list_all (no_pair (CHR ''{'') (CHR ''{'')) template_tail"
  by code_simp+

lemma page_no_open:
  "no_pair (CHR ''{'') (CHR ''{'') page_head"
  "no_pair (CHR ''{'') (CHR ''{'') page_hostname_to_time"
  "no_pair (CHR ''{'') (CHR ''{'') page_time_to_port"
  "no_pair (CHR ''{'') (CHR ''{'') page_port_to_environment"
  "no_pair (CHR ''{'') (CHR ''{'') page_tail"
  by (rule page_pieces_no_pair [OF template_lines_no_open];
      simp add: value_open_facts value_close_facts)+

lemma template_tail_split:
  "py_lines template_tail = butlast (py_lines template_tail) @ [CHR 0x0A]"
  using last_py_lines [OF template_nonempty(2)] template_nonempty(2)
  by (metis append_butlast_last_id py_lines_eq_Nil)

lemma HTML_TEMPLATE_pieces:
  "drop_trailing_newline HTML_TEMPLATE =
     page_head @ ''{{ hostname }}'' @ page_hostname_to_time @ ''{{ current_time }}'' @
     page_time_to_port @ ''{{ port }}'' @ page_port_to_environment @ ''{{ environment }}'' @
     page_tail"
proof -
  have lines:
    \<open>py_lines [''                <span class="value">{{ hostname }}</span>''] =
       value_open @ ''{{ hostname }}'' @ value_close\<close>
    \<open>py_lines [''                <span class="value">{{ current_time }}</span>''] =
       value_open @ ''{{ current_time }}'' @ value_close\<close>
    \<open>py_lines [''                <span class="value">{{ port }}</span>''] =
       value_open @ ''{{ port }}'' @ value_close\<close>
    \<open>py_lines [''                <span class="value">{{ environment }}</span>''] =
       value_open @ ''{{ environment }}'' @ value_close\<close>
    by code_simp+
  have whole: "HTML_TEMPLATE =
     (page_head @ ''{{ hostname }}'' @ page_hostname_to_time @ ''{{ current_time }}'' @
      page_time_to_port @ ''{{ port }}'' @ page_port_to_environment @ ''{{ environment }}'' @
      page_tail) @ [CHR 0x0A]"
    unfolding HTML_TEMPLATE_def lines page_head_def page_hostname_to_time_def
      page_time_to_port_def page_port_to_environment_def page_tail_def
    by (subst (1) template_tail_split) simp
  show ?thesis
    unfolding whole drop_trailing_newline_def by (simp only: last_snoc butlast_snoc) simp
qed

text \<open>
  The template holds no \<open>{%\<close> and no \<open>{#\<close>: it has no statements and no comments, so
  text and \<open>{{ ... }}\<close> expressions are all the lexer meets.
\<close>

lemma template_lines_no_statement:
  "list_all (no_pair (CHR ''{'') (CHR ''%'')) template_head"
  "list_all (no_pair (CHR ''{'') (CHR ''%'')) template_hostname_to_time"
  "list_all (no_pair (CHR ''{'') (CHR ''%'')) template_time_to_port"
  "list_all (no_pair (CHR ''{'') (CHR ''%'')) template_port_to_environment"
  "list_all (no_pair (CHR ''{'') (CHR ''%'')) template_tail"
  by code_simp+

lemma template_lines_no_comment:
  "list_all (no_pair (CHR ''{'') (CHR ''#'')) template_head"
  "list_all (no_pair (CHR ''{'') (CHR ''#'')) template_hostname_to_time"
  "list_all (no_pair (CHR ''{'') (CHR ''#'')) template_time_to_port"
  "list_all (no_pair (CHR ''{'') (CHR ''#'')) template_port_to_environment"
  "list_all (no_pair (CHR ''{'') (CHR ''#'')) template_tail"
  by code_simp+

lemma page_no_statement:
  "no_pair (CHR ''{'') (CHR ''%'') page_head"
  "no_pair (CHR ''{'') (CHR ''%'') page_hostname_to_time"
  "no_pair (CHR ''{'') (CHR ''%'') page_time_to_port"
  "no_pair (CHR ''{'') (CHR ''%'') page_port_to_environment"
  "no_pair (CHR ''{'') (CHR ''%'') page_tail"
  by (rule page_pieces_no_pair [OF template_lines_no_statement];
      simp add: value_open_facts value_close_facts)+

lemma page_no_comment:
  "no_pair (CHR ''{'') (CHR ''#'') page_head"
  "no_pair (CHR ''{'') (CHR ''#'') page_hostname_to_time"
  "no_pair (CHR ''{'') (CHR ''#'') page_time_to_port"
  "no_pair (CHR ''{'') (CHR ''#'') page_port_to_environment"
  "no_pair (CHR ''{'') (CHR ''#'') page_tail"
  by (rule page_pieces_no_pair [OF template_lines_no_comment];
      simp add: value_open_facts value_close_facts)+

lemma HTML_TEMPLATE_no_statements:
  "no_pair (CHR ''{'') (CHR ''%'') (drop_trailing_newline HTML_TEMPLATE)"
  "no_pair (CHR ''{'') (CHR ''#'') (drop_trailing_newline HTML_TEMPLATE)"
  by (simp_all add: HTML_TEMPLATE_pieces no_pair_append no_pair_Cons page_no_statement
      page_no_comment page_piece_starts)

lemma scan_HTML_TEMPLATE:
  "scan False [] (drop_trailing_newline HTML_TEMPLATE) =
     [Text page_head, Expr ''hostname'', Text page_hostname_to_time, Expr ''current_time'',
      Text page_time_to_port, Expr ''port'', Text page_port_to_environment,
      Expr ''environment'', Text page_tail]"
  by (simp add: HTML_TEMPLATE_pieces scan_text_open scan_text_end page_no_open
      page_piece_ends strip_blanks_def)

lemma render_HTML_TEMPLATE:
  "render_template_string HTML_TEMPLATE
     [(''hostname'', h), (''current_time'', t), (''port'', p), (''environment'', e)] =
   rendered_page h t p e"
  by (simp add: render_template_string_def scan_HTML_TEMPLATE lookup_def rendered_page_def)

lemma serve_home:
  assumes "gethostname w = Inr h"
  shows "serve args w \<lparr>req_method = GET, req_path = ''/''\<rparr> =
     \<lparr>status_code = 200,
      body = Html (rendered_page h (strftime (now w)) (getenv (environ w) ''PORT'' ''5000'')
                     (getenv (environ w) ''ENVIRONMENT'' ''production''))\<rparr>"
  using assms
  by (simp add: serve_def wsgi_app_def full_dispatch_request_def dispatch_request_def
      url_map_def route_methods_def home_def render_HTML_TEMPLATE)

lemma escape_Cons: "escape (c # s) = escape_char c @ escape s"
  by (simp add: escape_def)

lemma escape_safe: "list_all html_safe s \<Longrightarrow> escape s = s"
  by (induction s) (simp_all add: escape_def escape_char_def html_safe_def)

lemma unescape_escape: "unescape (escape s) = s"
proof (induction s)
  case Nil
  then show ?case by (simp add: escape_def)
next
  case (Cons c s)
  then show ?case by (simp add: escape_Cons escape_char_def)
qed

lemma is_digit_safe: "is_digit c \<Longrightarrow> html_safe c"
  by (auto simp: is_digit_def html_safe_def)

lemma digits_safe: "list_all is_digit s \<Longrightarrow> list_all html_safe s"
  by (induction s) (simp_all add: is_digit_safe)

lemma strftime_safe: "list_all html_safe (strftime dt)"
  by (simp add: strftime_def digits_safe str_nat_digits pad0_digits html_safe_def)

lemma escape_strftime: "escape (strftime dt) = strftime dt"
  by (rule escape_safe [OF strftime_safe])

lemma length_str_nat_lower: "10 ^ k \<le> n \<Longrightarrow> k < length (str_nat n)"
proof (induction n arbitrary: k rule: str_nat.induct)
  case (1 n)
  show ?case
  proof (cases k)
    case 0
    then show ?thesis using length_str_nat_pos by simp
  next
    case (Suc j)
    have big: "\<not> n < 10"
    proof
      assume "n < 10"
      moreover have "(1::nat) \<le> 10 ^ j" by simp
      moreover from "1.prems" Suc have "10 * 10 ^ j \<le> n" by simp
      ultimately show False by linarith
    qed
    from "1.prems" Suc have "10 ^ j \<le> n div 10" by (simp add: power_Suc less_eq_div_iff_mult_less_eq)
    from "1.IH" [OF big this] big Suc show ?thesis by (simp add: str_nat.simps [of n])
  qed
qed

lemma four_digit_year:
  assumes "1000 \<le> y" "y \<le> 9999"
  shows "str_nat y = pad0 4 y"
proof -
  from assms(1) have "3 < length (str_nat y)" using length_str_nat_lower [of 3 y] by simp
  moreover from assms(2) have "length (str_nat y) \<le> 4" using length_str_nat [of y 4] by simp
  ultimately show ?thesis by (simp add: pad0_def)
qed

lemma reads_strftime:
  assumes "valid_datetime dt" "1000 \<le> year dt"
  shows "reads_ymd_hms (strftime dt) =
     Some (year dt, month dt, day dt, hour dt, minute dt, second dt)"
proof -
  from assms have b: "year dt < 10 ^ 4" "month dt < 10 ^ 2" "day dt < 10 ^ 2" "hour dt < 10 ^ 2"
    "minute dt < 10 ^ 2" "second dt < 10 ^ 2"
    by (auto simp: valid_datetime_def days_in_month_def split: if_splits)
  from assms have y: "str_nat (year dt) = pad0 4 (year dt)"
    by (intro four_digit_year) (simp_all add: valid_datetime_def)
  show ?thesis
    unfolding reads_ymd_hms_def strftime_def y
    by (simp add: read_digits_pad0 [OF b(1)] read_digits_pad0 [OF b(2)]
        read_digits_pad0 [OF b(3)] read_digits_pad0 [OF b(4)] read_digits_pad0 [OF b(5)]
        read_digits_pad0_end [OF b(6)] expect_Cons)
qed

lemma py_lines_append: "py_lines (xs @ ys) = py_lines xs @ py_lines ys"
  by (simp add: py_lines_def)

lemma sublist_line: "l \<in> set ls \<Longrightarrow> sublist l (py_lines ls)"
proof -
  assume "l \<in> set ls"
  then obtain xs ys where "ls = xs @ l # ys" by (auto dest: split_list)
  then have "py_lines ls = py_lines xs @ l @ (CHR 0x0A # py_lines ys)"
    by (simp add: py_lines_append py_lines_Cons)
  then show ?thesis by (simp only: sublist_appendI)
qed

lemma sublist_in_context: "sublist x a \<Longrightarrow> sublist x (p @ a @ q)"
proof -
  assume "sublist x a"
  then obtain ps ss where "a = ps @ x @ ss" unfolding sublist_def by blast
  then have "p @ a @ q = (p @ ps) @ x @ (ss @ q)" by simp
  then show ?thesis by (simp only: sublist_appendI)
qed

lemma running_in_head: "sublist ''RUNNING'' page_head"
proof -
  have \<open>''                <span class="value"><span class="badge">RUNNING</span></span>''
      \<in> set template_head\<close>
    by (simp add: template_head_def)
  then have \<open>sublist ''                <span class="value"><span class="badge">RUNNING</span></span>''
      (py_lines template_head)\<close>
    by (rule sublist_line)
  then obtain ps ss where split: \<open>py_lines template_head =
      ps @ ''                <span class="value"><span class="badge">RUNNING</span></span>'' @ ss\<close>
    unfolding sublist_def by blast
  have \<open>sublist ''RUNNING''
      ''                <span class="value"><span class="badge">RUNNING</span></span>''\<close>
    by code_simp
  then have "sublist ''RUNNING'' (py_lines template_head)"
    unfolding split by (rule sublist_in_context)
  then have "sublist ''RUNNING'' ([CHR 0x0A] @ py_lines template_head @ value_open)"
    by (rule sublist_in_context)
  then show ?thesis by (simp add: page_head_def)
qed

lemma page_contains:
  "sublist ''RUNNING'' (rendered_page h t p e)"
  "sublist (escape h) (rendered_page h t p e)"
  "sublist (escape t) (rendered_page h t p e)"
proof -
  from running_in_head have "sublist ''RUNNING'' ([] @ page_head @
      (escape h @ page_hostname_to_time @ escape t @ page_time_to_port @
       escape p @ page_port_to_environment @ escape e @ page_tail))"
    by (rule sublist_in_context)
  then show "sublist ''RUNNING'' (rendered_page h t p e)"
    by (simp add: rendered_page_def)
  show "sublist (escape h) (rendered_page h t p e)"
    unfolding rendered_page_def by (rule sublist_appendI)
  have "rendered_page h t p e = (page_head @ escape h @ page_hostname_to_time) @ escape t @
      (page_time_to_port @ escape p @ page_port_to_environment @ escape e @ page_tail)"
    by (simp add: rendered_page_def)
  then show "sublist (escape t) (rendered_page h t p e)"
    by (simp only: sublist_appendI)
qed

lemma label_ends:
  "suffix (label_line ''Port'') (value_close @ py_lines template_time_to_port)"
  "suffix (label_line ''Environment'') (value_close @ py_lines template_port_to_environment)"
  by code_simp+


lemma shows_environment: "shows_value ''Environment'' e (rendered_page h t p e)"
proof -
  from label_ends(2) obtain zs where
    "value_close @ py_lines template_port_to_environment = zs @ label_line ''Environment''"
    by (auto simp: suffix_def)
  then have "page_port_to_environment = zs @ label_line ''Environment'' @ value_open"
    by (simp add: page_port_to_environment_def flip: append_assoc)
  then have "rendered_page h t p e =
      (page_head @ escape h @ page_hostname_to_time @ escape t @ page_time_to_port @
       escape p @ zs) @
      (label_line ''Environment'' @ value_open @ escape e @ ''</span>'') @
      (CHR 0x0A # butlast (py_lines template_tail))"
    by (simp add: rendered_page_def page_tail_def value_close_def)
  then show ?thesis
    unfolding shows_value_def by (simp only: sublist_appendI)
qed

lemma template_lines_no_amp_d:
  "list_all (no_pair (CHR ''&'') (CHR ''d'')) template_head"
  "list_all (no_pair (CHR ''&'') (CHR ''d'')) template_hostname_to_time"
  "list_all (no_pair (CHR ''&'') (CHR ''d'')) template_time_to_port"
  "list_all (no_pair (CHR ''&'') (CHR ''d'')) template_port_to_environment"
  "list_all (no_pair (CHR ''&'') (CHR ''d'')) template_tail"
  by code_simp+

lemma page_no_amp_d:
  "no_pair (CHR ''&'') (CHR ''d'') page_head"
  "no_pair (CHR ''&'') (CHR ''d'') page_hostname_to_time"
  "no_pair (CHR ''&'') (CHR ''d'') page_time_to_port"
  "no_pair (CHR ''&'') (CHR ''d'') page_port_to_environment"
  "no_pair (CHR ''&'') (CHR ''d'') page_tail"
  by (rule page_pieces_no_pair [OF template_lines_no_amp_d];
      simp add: value_open_facts value_close_facts)+

lemma ampersand_page_no_amp_d:
  "no_pair (CHR ''&'') (CHR ''d'')
     (rendered_page ''r&d-web'' ''2026-11-03 09:05:07'' ''8080'' ''staging'')"
proof -
  have e: "escape ''r&d-web'' = ''r&amp;d-web''"
    "escape ''2026-11-03 09:05:07'' = ''2026-11-03 09:05:07''"
    "escape ''8080'' = ''8080''" "escape ''staging'' = ''staging''"
    by code_simp+
  show ?thesis
    unfolding rendered_page_def e
    by (simp add: no_pair_append no_pair_Cons page_no_amp_d page_piece_starts)
qed

text \<open>
  C6, as amended. When the hostname can be read and the clock shows a valid datetime of
  the year 1000 or later, \<open>GET /\<close> is answered with status 200 and an HTML body that
  contains the literal string \<open>RUNNING\<close>, the hostname in escaped form (which is the
  hostname itself when it has none of the characters \<open>&\<close>, \<open><\<close>, \<open>>\<close>, \<open>'\<close>, \<open>"\<close>) and
  the clock reading as \<open>YYYY-MM-DD HH:MM:SS\<close>: a string of that shape whose six numbers
  are the fields of the clock reading.
\<close>

theorem home_page_contents:
  assumes "gethostname w = Inr h" "valid_datetime (now w)" "1000 \<le> year (now w)"
  shows "\<exists>html. serve args w \<lparr>req_method = GET, req_path = ''/''\<rparr> =
             \<lparr>status_code = 200, body = Html html\<rparr> \<and>
           sublist ''RUNNING'' html \<and>
           sublist (escape h) html \<and>
           (list_all html_safe h \<longrightarrow> sublist h html) \<and>
           sublist (strftime (now w)) html \<and>
           reads_ymd_hms (strftime (now w)) =
             Some (year (now w), month (now w), day (now w),
                   hour (now w), minute (now w), second (now w))"
proof -
  let ?page = "rendered_page h (strftime (now w)) (getenv (environ w) ''PORT'' ''5000'')
                 (getenv (environ w) ''ENVIRONMENT'' ''production'')"
  have "sublist (escape (strftime (now w))) ?page" by (rule page_contains(3))
  then have time: "sublist (strftime (now w)) ?page" by (simp only: escape_strftime)
  have host: "sublist (escape h) ?page" by (rule page_contains(2))
  then have safe: "list_all html_safe h \<longrightarrow> sublist h ?page"
    by (auto simp: escape_safe)
  from serve_home [OF assms(1)] page_contains(1) host safe time
    reads_strftime [OF assms(2,3)]
  show ?thesis by blast
qed

theorem home_page_contents_witness:
  "gethostname example_world = Inr ''web-01'' \<and> valid_datetime (now example_world) \<and>
   1000 \<le> year (now example_world) \<and> list_all html_safe ''web-01'' \<and>
   (\<exists>html. serve example_args example_world \<lparr>req_method = GET, req_path = ''/''\<rparr> =
             \<lparr>status_code = 200, body = Html html\<rparr> \<and>
           sublist ''RUNNING'' html \<and> sublist ''web-01'' html \<and>
           sublist (strftime (now example_world)) html)"
proof -
  have h: "gethostname example_world = Inr ''web-01''" by (simp add: example_world_def)
  have v: "valid_datetime (now example_world)"
    by (simp add: example_world_def example_clock_def valid_datetime_def days_in_month_def)
  have y: "1000 \<le> year (now example_world)"
    by (simp add: example_world_def example_clock_def)
  have s: "list_all html_safe ''web-01''" by (simp add: html_safe_def)
  from home_page_contents [OF h v y, of example_args] h v y s show ?thesis by blast
qed

text \<open>
  For the hostname \<open>r&d-web\<close> the page holds \<open>r&amp;d-web\<close>; the hostname as such does
  not occur in the body.
\<close>

theorem hostname_escaped_counterexample:
  "serve example_args ampersand_world \<lparr>req_method = GET, req_path = ''/''\<rparr> =
     \<lparr>status_code = 200,
      body = Html (rendered_page ''r&d-web'' ''2026-11-03 09:05:07'' ''8080'' ''staging'')\<rparr> \<and>
   \<not> sublist ''r&d-web''
       (rendered_page ''r&d-web'' ''2026-11-03 09:05:07'' ''8080'' ''staging'') \<and>
   sublist ''r&amp;d-web''
       (rendered_page ''r&d-web'' ''2026-11-03 09:05:07'' ''8080'' ''staging'')"
proof -
  have h: "gethostname ampersand_world = Inr ''r&d-web''"
    by (simp add: ampersand_world_def)
  have t: "strftime (now ampersand_world) = ''2026-11-03 09:05:07''"
    unfolding ampersand_world_def example_world_def by code_simp
  have env: "getenv (environ ampersand_world) ''PORT'' ''5000'' = ''8080''"
    "getenv (environ ampersand_world) ''ENVIRONMENT'' ''production'' = ''staging''"
    by (simp_all add: ampersand_world_def example_world_def getenv_def)
  have page: "serve example_args ampersand_world \<lparr>req_method = GET, req_path = ''/''\<rparr> =
     \<lparr>status_code = 200,
      body = Html (rendered_page ''r&d-web'' ''2026-11-03 09:05:07'' ''8080'' ''staging'')\<rparr>"
    using serve_home [OF h, of example_args] by (simp only: t env)
  have "\<not> no_pair (CHR ''&'') (CHR ''d'') ''r&d-web''" by code_simp
  with ampersand_page_no_amp_d have absent: "\<not> sublist ''r&d-web''
       (rendered_page ''r&d-web'' ''2026-11-03 09:05:07'' ''8080'' ''staging'')"
    by (blast dest: no_pair_sublist)
  have "escape ''r&d-web'' = ''r&amp;d-web''" by code_simp
  with page_contains(2) [of "''r&d-web''" "''2026-11-03 09:05:07''" "''8080''" "''staging''"]
  have present: "sublist ''r&amp;d-web''
       (rendered_page ''r&d-web'' ''2026-11-03 09:05:07'' ''8080'' ''staging'')"
    by simp
  from page absent present show ?thesis by blast
qed

text \<open>
  C7. Let \<open>v\<close> be the value of \<open>ENVIRONMENT\<close>, or \<open>production\<close> when the variable is
  unset. The home page shows \<open>v\<close> under the label \<open>Environment\<close> (the escaped text of
  \<open>v\<close>, which decodes to \<open>v\<close>) and the \<open>environment\<close> member of the \<open>/api/info\<close> object
  is the string \<open>v\<close>.
\<close>

theorem environment_displayed:
  assumes "gethostname w = Inr h"
    and "v = (case environ w ''ENVIRONMENT'' of None \<Rightarrow> ''production'' | Some x \<Rightarrow> x)"
  shows "(\<exists>html. html_body (serve args w \<lparr>req_method = GET, req_path = ''/''\<rparr>) = Some html \<and>
            shows_value ''Environment'' v html) \<and>
         unescape (escape v) = v \<and>
         field (serve args w \<lparr>req_method = GET, req_path = ''/api/info''\<rparr>) ''environment'' =
           Some (JString v)"
proof -
  from assms(2) have v: "getenv (environ w) ''ENVIRONMENT'' ''production'' = v"
    by (simp add: getenv_def)
  have "html_body (serve args w \<lparr>req_method = GET, req_path = ''/''\<rparr>) =
      Some (rendered_page h (strftime (now w)) (getenv (environ w) ''PORT'' ''5000'') v)"
    by (simp add: serve_home [OF assms(1)] html_body_def v)
  moreover have "shows_value ''Environment'' v
      (rendered_page h (strftime (now w)) (getenv (environ w) ''PORT'' ''5000'') v)"
    by (rule shows_environment)
  moreover have "field (serve args w \<lparr>req_method = GET, req_path = ''/api/info''\<rparr>)
      ''environment'' = Some (JString v)"
    by (simp add: serve_info [OF assms(1)] field_def jsonify_def v)
  ultimately show ?thesis using unescape_escape by blast
qed

theorem environment_displayed_witness:
  "gethostname example_world = Inr ''web-01'' \<and>
   environ example_world ''ENVIRONMENT'' = Some ''staging'' \<and>
   (\<exists>html. html_body (serve example_args example_world
              \<lparr>req_method = GET, req_path = ''/''\<rparr>) = Some html \<and>
          shows_value ''Environment'' ''staging'' html) \<and>
   field (serve example_args example_world
     \<lparr>req_method = GET, req_path = ''/api/info''\<rparr>) ''environment'' = Some (JString ''staging'')"
proof -
  have h: "gethostname example_world = Inr ''web-01''" by (simp add: example_world_def)
  have e: "environ example_world ''ENVIRONMENT'' = Some ''staging''"
    by (simp add: example_world_def)
  then have v: "''staging'' =
      (case environ example_world ''ENVIRONMENT'' of None \<Rightarrow> ''production'' | Some x \<Rightarrow> x)"
    by simp
  from environment_displayed [OF h v, of example_args] h e show ?thesis by blast
qed



end
